theory Spec2Isabelle
  imports Main "HOL-Library.Char_ord" "HOL-Library.List_Lexorder" "HOL-Library.Sublist"
begin

section \<open>The database setup runner (scripts/run\_database\_setup.py)\<close>

text \<open>
  The script is a straight line of effects: it reads two environment variables, builds a
  client, reads two files, makes remote calls inside three \<^verbatim>\<open>try\<close> blocks and
  prints. Everything outside the script (the process environment, the file system, the
  remote service, the interpreter's wording of a \<^verbatim>\<open>TypeError\<close>) is a field of a
  \<open>world\<close>; the script itself is the function \<open>run\<close>, which returns the trace of the
  effects it performed, in order, and the way the process ended.

  \<^verbatim>\<open>print\<close> and \<^verbatim>\<open>create_client\<close> are taken to return normally (the client is a
  handle on the two credentials; the service is reached by the calls only), and what a
  call or a read raises is an instance of \<^verbatim>\<open>Exception\<close>.

  Python strings are modelled by their UTF-8 bytes (\<open>string\<close>), the encoding in which
  they reach the console; Python orders strings by code point, which on UTF-8 is the
  lexicographic order of the bytes (the order of \<open>List_Lexorder\<close> over \<open>Char_ord\<close>).
\<close>

subsection \<open>Values, exceptions, strings\<close>

text \<open>
  The values a decoded JSON response can hold. Floats behave as \<open>PyInt\<close> everywhere in
  the script (hashable, not a string) and are left out.
\<close>

datatype pyval =
    PyNone
  | PyBool bool
  | PyInt int
  | PyStr string
  | PyList "pyval list"
  | PyDict "(string \<times> pyval) list"

text \<open>
  Instances of \<^verbatim>\<open>Exception\<close>, which is what \<^verbatim>\<open>except Exception as e\<close> catches.
  \<open>SymbolKeyError\<close> is the \<^verbatim>\<open>KeyError('symbol')\<close> that \<^verbatim>\<open>row['symbol']\<close> raises, the
  only \<^verbatim>\<open>KeyError\<close> of the script's own; its \<^verbatim>\<open>str\<close> is the \<^verbatim>\<open>repr\<close> of the key,
  \<^verbatim>\<open>'symbol'\<close> with its quotes. \<open>TypeError m\<close> is raised by the interpreter with the
  message \<open>m\<close>. \<open>PyException m\<close> is an instance of any other class whose \<^verbatim>\<open>str(e)\<close> is
  \<open>m\<close> (the client library's errors, whatever their class, and the \<^verbatim>\<open>OSError\<close> of
  \<^verbatim>\<open>open\<close>).
\<close>

datatype exn = SymbolKeyError | TypeError string | PyException string

definition quote :: string where
  "quote = [CHR 0x27]"

fun str_exn :: "exn \<Rightarrow> string" where
  "str_exn SymbolKeyError = quote @ ''symbol'' @ quote"
| "str_exn (TypeError m) = m"
| "str_exn (PyException m) = m"

definition nl :: string where
  "nl = [CHR 0x0A]"

text \<open>\<^verbatim>\<open>"=" * 80\<close>\<close>

definition rule80 :: string where
  "rule80 = replicate 80 (CHR ''='')"

text \<open>The three non-ASCII characters of the script: U+2713, U+2717 and U+2022.\<close>

definition check :: string where
  "check = [CHR 0xE2, CHR 0x9C, CHR 0x93]"

definition cross :: string where
  "cross = [CHR 0xE2, CHR 0x9C, CHR 0x97]"

definition bullet :: string where
  "bullet = [CHR 0xE2, CHR 0x80, CHR 0xA2]"

text \<open>\<^verbatim>\<open>str\<close> of an integer, as an f-string formats it.\<close>

definition digit :: "nat \<Rightarrow> char" where
  "digit d = ''0123456789'' ! d"

fun str_nat :: "nat \<Rightarrow> string" where
  "str_nat n = (if n < 10 then [digit n] else str_nat (n div 10) @ [digit (n mod 10)])"

declare str_nat.simps [simp del]

definition str_int :: "int \<Rightarrow> string" where
  "str_int i = (if i < 0 then ''-'' @ str_nat (nat (- i)) else str_nat (nat i))"

text \<open>\<^verbatim>\<open>f"{result.count}"\<close>: the count is an \<^verbatim>\<open>Optional[int]\<close>.\<close>

fun format_count :: "int option \<Rightarrow> string" where
  "format_count None = ''None''"
| "format_count (Some n) = str_int n"

text \<open>\<^verbatim>\<open>sep.join(xs)\<close> on strings.\<close>

fun join :: "string \<Rightarrow> string list \<Rightarrow> string" where
  "join sep [] = []"
| "join sep [x] = x"
| "join sep (x # y # ys) = x @ sep @ join sep (y # ys)"

subsection \<open>The world and the trace\<close>

text \<open>
  A remote call is the whole expression up to \<^verbatim>\<open>.execute()\<close>:
  \<^verbatim>\<open>supabase.rpc(fn, params).execute()\<close> or
  \<^verbatim>\<open>supabase.table(t).select(columns, count=c).execute()\<close>.
\<close>

datatype call =
    Rpc string "(string \<times> string) list"
  | Select string string "string option"

record api_response =
  data :: "pyval list"
  count :: "int option"

text \<open>
  \<open>environ\<close> is \<^verbatim>\<open>os.environ.get\<close>; \<open>read_text\<close> is \<^verbatim>\<open>open(path, 'r')\<close> followed by
  \<^verbatim>\<open>f.read()\<close>; \<open>service\<close> answers a call given the calls made before it (the service
  is stateful), by returning a response or raising; \<open>type_error_text\<close> is the message of the
  \<^verbatim>\<open>TypeError\<close> the interpreter raises on a value (the wording depends on the Python
  version and on the iteration order of a set).
\<close>

record world =
  environ :: "string \<rightharpoonup> string"
  read_text :: "string \<Rightarrow> exn + string"
  service :: "call list \<Rightarrow> call \<Rightarrow> exn + api_response"
  type_error_text :: "pyval \<Rightarrow> string"

datatype event =
    Print string
  | CreateClient "string option" "string option"
  | ReadFile string
  | Execute call

type_synonym trace = "event list"

text \<open>
  How the process ends: \<open>Exit n\<close> is \<^verbatim>\<open>exit(n)\<close>, or falling off the end of the script
  for \<open>n = 0\<close>; \<open>Unhandled e\<close> is an exception no handler caught.
\<close>

datatype ending = Exit nat | Unhandled exn

fun calls :: "trace \<Rightarrow> call list" where
  "calls [] = []"
| "calls (Execute c # t) = c # calls t"
| "calls (_ # t) = calls t"

fun printed :: "trace \<Rightarrow> string list" where
  "printed [] = []"
| "printed (Print s # t) = s # printed t"
| "printed (_ # t) = printed t"

fun is_create_client :: "event \<Rightarrow> bool" where
  "is_create_client (CreateClient _ _) = True"
| "is_create_client _ = False"

definition print :: "string \<Rightarrow> trace \<Rightarrow> trace" where
  "print s t = t @ [Print s]"

definition prints :: "string list \<Rightarrow> trace \<Rightarrow> trace" where
  "prints ss t = t @ map Print ss"

definition execute :: "world \<Rightarrow> call \<Rightarrow> trace \<Rightarrow> (exn + api_response) \<times> trace" where
  "execute w c t = (service w (calls t) c, t @ [Execute c])"

subsection \<open>Credential check (lines 5--14)\<close>

text \<open>\<^verbatim>\<open>not x\<close> for an \<^verbatim>\<open>Optional[str]\<close>: true of \<^verbatim>\<open>None\<close> and of the empty string.\<close>

fun falsy :: "string option \<Rightarrow> bool" where
  "falsy None = True"
| "falsy (Some s) = (s = [])"

definition missing_credentials_lines :: "string list" where
  "missing_credentials_lines =
     [''ERROR: Missing Supabase credentials!'',
      ''Required environment variables: SUPABASE_URL, SUPABASE_SERVICE_ROLE_KEY'']"

definition title_lines :: "string list" where
  "title_lines = [rule80, ''CRYPTO TRADING PLATFORM - DATABASE SETUP'', rule80]"

subsection \<open>Reading the SQL scripts (lines 20--29)\<close>

definition schema_path :: string where
  "schema_path = ''scripts/001_reset_and_create_enhanced_schema.sql''"

definition seed_path :: string where
  "seed_path = ''scripts/002_seed_sample_data.sql''"

text \<open>
  Neither \<^verbatim>\<open>with open(...)\<close> is inside a \<^verbatim>\<open>try\<close>: an error of the first read ends
  the block before the second file is opened.
\<close>

definition load_scripts :: "world \<Rightarrow> trace \<Rightarrow> (exn + string \<times> string) \<times> trace" where
  "load_scripts w t0 =
     (let t1 = print (nl @ ''[v0] Reading SQL scripts...'') t0;
          t2 = t1 @ [ReadFile schema_path]
      in case read_text w schema_path of
           Inl e \<Rightarrow> (Inl e, t2)
         | Inr schema_sql \<Rightarrow>
             (let t3 = t2 @ [ReadFile seed_path]
              in case read_text w seed_path of
                   Inl e \<Rightarrow> (Inl e, t3)
                 | Inr seed_sql \<Rightarrow>
                     (Inr (schema_sql, seed_sql),
                      print ''[v0] SQL scripts loaded successfully'' t3)))"

subsection \<open>Step 1: schema (lines 31--60)\<close>

text \<open>\<^verbatim>\<open>supabase.rpc('exec_sql', {'sql': sql}).execute()\<close>\<close>

definition exec_sql :: "string \<Rightarrow> call" where
  "exec_sql sql = Rpc ''exec_sql'' [(''sql'', sql)]"

definition step1_banner :: "string list" where
  "step1_banner = [nl @ rule80, ''STEP 1: Creating Enhanced Database Schema'', rule80]"

definition schema_ok_lines :: "string list" where
  "schema_ok_lines =
     [nl @ check @ '' Schema creation completed successfully!'',
      nl @ ''Tables created:'',
      ''  '' @ bullet @ '' user_profiles'',
      ''  '' @ bullet @ '' exchange_connections (Kraken, Binance US, Coinbase)'',
      ''  '' @ bullet @ '' wallet_connections (MetaMask, WalletConnect, etc.)'',
      ''  '' @ bullet @ '' price_history'',
      ''  '' @ bullet @ '' trading_orders'',
      ''  '' @ bullet @ '' transactions'',
      ''  '' @ bullet @ '' portfolio_holdings'',
      ''  '' @ bullet @ '' trading_strategies'',
      ''  '' @ bullet @ '' price_alerts'',
      ''  '' @ bullet @ '' dashboard_stats'',
      nl @ check @ '' Row Level Security (RLS) policies enabled'',
      check @ '' Indexes created for performance'',
      check @ '' Triggers configured for auto-updates'']"

definition schema_error_lines :: "exn \<Rightarrow> string list" where
  "schema_error_lines e =
     [nl @ cross @ '' Error creating schema: '' @ str_exn e,
      nl @ ''NOTE: If you see '' @ quote @ ''relation does not exist'' @ quote
         @ '' errors, this is expected.'',
      ''      The script will execute via the Supabase SQL Editor.'',
      nl @ ''Please run the following scripts manually in Supabase SQL Editor:'',
      ''  1. scripts/001_reset_and_create_enhanced_schema.sql'',
      ''  2. scripts/002_seed_sample_data.sql'']"

definition step1 :: "world \<Rightarrow> string \<Rightarrow> trace \<Rightarrow> trace" where
  "step1 w schema_sql t0 =
     (let t1 = prints step1_banner t0
      in case execute w (exec_sql schema_sql) t1 of
           (Inr result, t2) \<Rightarrow> prints schema_ok_lines t2
         | (Inl e, t2) \<Rightarrow> prints (schema_error_lines e) t2)"

subsection \<open>Step 2: seed (lines 62--77)\<close>

definition step2_banner :: "string list" where
  "step2_banner = [nl @ rule80, ''STEP 2: Seeding Sample Price Data'', rule80]"

definition seed_ok_lines :: "string list" where
  "seed_ok_lines =
     [nl @ check @ '' Sample data seeded successfully!'',
      nl @ ''Sample cryptocurrencies added:'',
      ''  '' @ bullet @ '' BTC (Bitcoin) - 5 historical data points'',
      ''  '' @ bullet @ '' ETH (Ethereum) - 5 historical data points'',
      ''  '' @ bullet @ '' SOL (Solana) - 3 historical data points'',
      ''  '' @ bullet @ '' ADA (Cardano) - 2 historical data points'',
      ''  '' @ bullet @ '' MATIC (Polygon) - 2 historical data points'']"

definition seed_error_lines :: "exn \<Rightarrow> string list" where
  "seed_error_lines e = [nl @ cross @ '' Error seeding data: '' @ str_exn e]"

definition step2 :: "world \<Rightarrow> string \<Rightarrow> trace \<Rightarrow> trace" where
  "step2 w seed_sql t0 =
     (let t1 = prints step2_banner t0
      in case execute w (exec_sql seed_sql) t1 of
           (Inr result, t2) \<Rightarrow> prints seed_ok_lines t2
         | (Inl e, t2) \<Rightarrow> prints (seed_error_lines e) t2)"

subsection \<open>Step 3: verification (lines 79--97)\<close>

definition count_query :: call where
  "count_query = Select ''price_history'' ''symbol'' (Some ''exact'')"

definition symbols_query :: call where
  "symbols_query = Select ''price_history'' ''symbol'' None"

text \<open>
  \<^verbatim>\<open>row['symbol']\<close>: a dictionary without the key raises \<^verbatim>\<open>KeyError('symbol')\<close>; a
  value that is not a dictionary cannot be subscripted by a string and raises
  \<^verbatim>\<open>TypeError\<close>.
\<close>

fun subscript_symbol :: "world \<Rightarrow> pyval \<Rightarrow> exn + pyval" where
  "subscript_symbol w (PyDict kvs) =
     (case map_of kvs ''symbol'' of
        None \<Rightarrow> Inl SymbolKeyError
      | Some v \<Rightarrow> Inr v)"
| "subscript_symbol w row = Inl (TypeError (type_error_text w row))"

fun hashable :: "pyval \<Rightarrow> bool" where
  "hashable (PyList _) = False"
| "hashable (PyDict _) = False"
| "hashable _ = True"

text \<open>
  \<^verbatim>\<open>set(row['symbol'] for row in symbols_result.data)\<close>: the generator is consumed
  row by row, each value subscripted and then hashed into the set; the first error ends
  it. The result lists the values added, in row order; the set is \<open>set\<close> of it.
\<close>

fun symbol_values :: "world \<Rightarrow> pyval list \<Rightarrow> exn + pyval list" where
  "symbol_values w [] = Inr []"
| "symbol_values w (row # rows) =
     (case subscript_symbol w row of
        Inl e \<Rightarrow> Inl e
      | Inr v \<Rightarrow>
          if \<not> hashable v then Inl (TypeError (type_error_text w v))
          else (case symbol_values w rows of
                  Inl e \<Rightarrow> Inl e
                | Inr vs \<Rightarrow> Inr (v # vs)))"

fun is_str :: "pyval \<Rightarrow> bool" where
  "is_str (PyStr _) = True"
| "is_str _ = False"

fun strs :: "pyval list \<Rightarrow> string list" where
  "strs [] = []"
| "strs (PyStr s # vs) = s # strs vs"
| "strs (_ # vs) = strs vs"

text \<open>
  \<^verbatim>\<open>', '.join(sorted(unique_symbols))\<close>: \<^verbatim>\<open>join\<close> accepts strings only, and
  \<^verbatim>\<open>sorted\<close> raises on values it cannot compare, so a set with any value that is not
  a string ends in a \<^verbatim>\<open>TypeError\<close>, raised by one or the other.
\<close>

definition join_sorted :: "world \<Rightarrow> pyval list \<Rightarrow> exn + string" where
  "join_sorted w vs =
     (if list_all is_str vs
      then Inr (join '', '' (sorted_list_of_set (set (strs vs))))
      else Inl (TypeError (type_error_text w (PyList vs))))"

definition symbols_line :: "world \<Rightarrow> pyval list \<Rightarrow> exn + string" where
  "symbols_line w rows =
     (case symbol_values w rows of
        Inl e \<Rightarrow> Inl e
      | Inr unique_symbols \<Rightarrow>
          (case join_sorted w unique_symbols of
             Inl e \<Rightarrow> Inl e
           | Inr joined \<Rightarrow> Inr (check @ '' Available symbols: '' @ joined)))"

definition step3_banner :: "string list" where
  "step3_banner = [nl @ rule80, ''STEP 3: Verifying Database Setup'', rule80]"

definition count_lines :: "api_response \<Rightarrow> string list" where
  "count_lines result =
     [nl @ check @ '' Database connection successful!'',
      check @ '' Found '' @ format_count (count result) @ '' price history records'']"

definition verify_error_lines :: "exn \<Rightarrow> string list" where
  "verify_error_lines e =
     [nl @ cross @ '' Verification failed: '' @ str_exn e,
      nl @ ''Please ensure the SQL scripts have been executed in Supabase.'']"

definition step3 :: "world \<Rightarrow> trace \<Rightarrow> trace" where
  "step3 w t0 =
     (let t1 = prints step3_banner t0
      in case execute w count_query t1 of
           (Inl e, t2) \<Rightarrow> prints (verify_error_lines e) t2
         | (Inr result, t2) \<Rightarrow>
             (let t3 = prints (count_lines result) t2
              in case execute w symbols_query t3 of
                   (Inl e, t4) \<Rightarrow> prints (verify_error_lines e) t4
                 | (Inr symbols_result, t4) \<Rightarrow>
                     (case symbols_line w (data symbols_result) of
                        Inl e \<Rightarrow> prints (verify_error_lines e) t4
                      | Inr line \<Rightarrow> print line t4)))"

subsection \<open>Summary (lines 99--107) and the whole script\<close>

definition summary_lines :: "string list" where
  "summary_lines =
     [nl @ rule80,
      ''DATABASE SETUP COMPLETE!'',
      rule80,
      nl @ ''Next steps:'',
      ''  1. Add exchange API credentials via the Trading page'',
      ''  2. Connect DeFi wallets via the Wallet Connect button'',
      ''  3. Start monitoring crypto prices in real-time'',
      ''  4. Create trading strategies and set price alerts'',
      nl @ rule80]"

definition run :: "world \<Rightarrow> trace \<times> ending" where
  "run w =
     (let SUPABASE_URL = environ w ''SUPABASE_URL'';
          SUPABASE_SERVICE_ROLE_KEY = environ w ''SUPABASE_SERVICE_ROLE_KEY''
      in if falsy SUPABASE_URL \<or> falsy SUPABASE_SERVICE_ROLE_KEY
         then (prints missing_credentials_lines [], Exit 1)
         else
           (let t1 = [CreateClient SUPABASE_URL SUPABASE_SERVICE_ROLE_KEY];
                t2 = prints title_lines t1
            in case load_scripts w t2 of
                 (Inl e, t3) \<Rightarrow> (t3, Unhandled e)
               | (Inr (schema_sql, seed_sql), t3) \<Rightarrow>
                   (let t4 = step1 w schema_sql t3;
                        t5 = step2 w seed_sql t4;
                        t6 = step3 w t5
                    in (prints summary_lines t6, Exit 0))))"

text \<open>The exit status the operating system sees: an unhandled exception gives 1.\<close>

fun exit_status :: "ending \<Rightarrow> nat" where
  "exit_status (Exit n) = n"
| "exit_status (Unhandled e) = 1"

subsection \<open>Notions used in the statements\<close>

text \<open>
  The symbol of a well-formed row: a dictionary whose \<^verbatim>\<open>'symbol'\<close> entry is a string.
  Any other row is malformed.
\<close>

fun symbol_of :: "pyval \<Rightarrow> string option" where
  "symbol_of (PyDict kvs) =
     (case map_of kvs ''symbol'' of Some (PyStr s) \<Rightarrow> Some s | _ \<Rightarrow> None)"
| "symbol_of _ = None"

text \<open>
  The trace of a run at line 29, once the credential check has passed and both scripts
  have been read.
\<close>

definition loaded :: "world \<Rightarrow> trace" where
  "loaded w =
     CreateClient (environ w ''SUPABASE_URL'') (environ w ''SUPABASE_SERVICE_ROLE_KEY'') #
     map Print title_lines @
     [Print (nl @ ''[v0] Reading SQL scripts...''), ReadFile schema_path, ReadFile seed_path,
      Print ''[v0] SQL scripts loaded successfully'']"

subsection \<open>Concrete worlds\<close>

text \<open>
  A world whose service answers the four call sites of the script with four given
  responses: the first \<^verbatim>\<open>rpc\<close> (no call before it), the second \<^verbatim>\<open>rpc\<close>, the
  \<^verbatim>\<open>select\<close> with a count and the \<^verbatim>\<open>select\<close> without.
\<close>

definition scripted ::
  "(string \<rightharpoonup> string) \<Rightarrow> (string \<Rightarrow> exn + string) \<Rightarrow>
   (exn + api_response) \<Rightarrow> (exn + api_response) \<Rightarrow>
   (exn + api_response) \<Rightarrow> (exn + api_response) \<Rightarrow> world" where
  "scripted env files schema_r seed_r count_r symbols_r =
     \<lparr>environ = env,
      read_text = files,
      service = (\<lambda>h c. case c of
                   Rpc f ps \<Rightarrow> (if h = [] then schema_r else seed_r)
                 | Select tb cols cnt \<Rightarrow> (case cnt of Some m \<Rightarrow> count_r | None \<Rightarrow> symbols_r)),
      type_error_text = (\<lambda>v. ''unsupported operand'')\<rparr>"

definition env_ok :: "string \<rightharpoonup> string" where
  "env_ok = [''SUPABASE_URL'' \<mapsto> ''https://db.example.org'',
             ''SUPABASE_SERVICE_ROLE_KEY'' \<mapsto> ''service-role-secret'']"

definition env_other :: "string \<rightharpoonup> string" where
  "env_other = [''SUPABASE_URL'' \<mapsto> ''http://localhost:54321'',
                ''SUPABASE_SERVICE_ROLE_KEY'' \<mapsto> ''another-key'']"

definition files_ok :: "string \<Rightarrow> exn + string" where
  "files_ok p =
     (if p = schema_path then Inr ''create table price_history ();''
      else if p = seed_path then Inr ''insert into price_history values ();''
      else Inl (PyException ''No such file or directory''))"

definition files_without_schema :: "string \<Rightarrow> exn + string" where
  "files_without_schema p =
     (if p = seed_path then Inr ''insert into price_history values ();''
      else Inl (PyException ''No such file or directory''))"

definition accepted :: "exn + api_response" where
  "accepted = Inr \<lparr>data = [], count = None\<rparr>"

definition unavailable :: "exn + api_response" where
  "unavailable = Inl (PyException ''connection refused'')"

text \<open>Rows as a \<^verbatim>\<open>select('symbol')\<close> returns them: one dictionary per record.\<close>

definition rows_of :: "string list \<Rightarrow> pyval list" where
  "rows_of syms = map (\<lambda>s. PyDict [(''symbol'', PyStr s)]) syms"

definition happy_world :: world where
  "happy_world =
     scripted env_ok files_ok accepted accepted
       (Inr \<lparr>data = [], count = Some 19\<rparr>)
       (Inr \<lparr>data = rows_of [''BTC'', ''ETH'', ''SOL'', ''ADA'', ''MATIC''], count = None\<rparr>)"

definition world12 :: world where
  "world12 =
     scripted env_ok files_ok accepted accepted
       (Inr \<lparr>data = [], count = Some 12\<rparr>)
       (Inr \<lparr>data = rows_of [''BTC'', ''BTC'', ''ETH'', ''SOL''], count = None\<rparr>)"

definition failing_world :: world where
  "failing_world = scripted env_ok files_ok unavailable unavailable unavailable unavailable"

definition seed_fail_world :: world where
  "seed_fail_world =
     scripted env_ok files_ok accepted unavailable
       (Inr \<lparr>data = [], count = Some 19\<rparr>)
       (Inr \<lparr>data = rows_of [''BTC'', ''ETH'', ''SOL'', ''ADA'', ''MATIC''], count = None\<rparr>)"

definition malformed_world :: world where
  "malformed_world =
     scripted env_ok files_ok accepted accepted
       (Inr \<lparr>data = [], count = Some 2\<rparr>)
       (Inr \<lparr>data = [PyDict [(''symbol'', PyStr ''BTC'')], PyDict [(''name'', PyStr ''Ether'')]],
             count = None\<rparr>)"

text \<open>A service whose errors quote the key it was given.\<close>

definition key_echo_world :: world where
  "key_echo_world =
     scripted env_ok files_ok
       (Inl (PyException ''Invalid API key: service-role-secret''))
       (Inl (PyException ''Invalid API key: service-role-secret''))
       (Inl (PyException ''Invalid API key: service-role-secret''))
       (Inl (PyException ''Invalid API key: service-role-secret''))"

section \<open>Properties\<close>

subsection \<open>Traces\<close>

lemma calls_append [simp]: "calls (a @ b) = calls a @ calls b"
  by (induction a rule: calls.induct) simp_all

lemma calls_map_Print [simp]: "calls (map Print ss) = []"
  by (induction ss) simp_all

lemma printed_append [simp]: "printed (a @ b) = printed a @ printed b"
  by (induction a rule: printed.induct) simp_all

lemma printed_map_Print [simp]: "printed (map Print ss) = ss"
  by (induction ss) simp_all

lemma env_ok_simps [simp]:
  "env_ok ''SUPABASE_URL'' = Some ''https://db.example.org''"
  "env_ok ''SUPABASE_SERVICE_ROLE_KEY'' = Some ''service-role-secret''"
  by (simp_all add: env_ok_def)

lemma files_ok_simps [simp]:
  "files_ok schema_path = Inr ''create table price_history ();''"
  "files_ok seed_path = Inr ''insert into price_history values ();''"
  by (simp_all add: files_ok_def schema_path_def seed_path_def)

lemma scripted_simps [simp]:
  "environ (scripted env files r1 r2 r3 r4) = env"
  "read_text (scripted env files r1 r2 r3 r4) = files"
  "service (scripted env files r1 r2 r3 r4) [] (exec_sql a) = r1"
  "service (scripted env files r1 r2 r3 r4) (c # h) (exec_sql a) = r2"
  "service (scripted env files r1 r2 r3 r4) h count_query = r3"
  "service (scripted env files r1 r2 r3 r4) h symbols_query = r4"
  "type_error_text (scripted env files r1 r2 r3 r4) v = ''unsupported operand''"
  by (simp_all add: scripted_def exec_sql_def count_query_def symbols_query_def)

lemma env_other_simps [simp]:
  "env_other ''SUPABASE_URL'' = Some ''http://localhost:54321''"
  "env_other ''SUPABASE_SERVICE_ROLE_KEY'' = Some ''another-key''"
  by (simp_all add: env_other_def)

lemma files_without_schema_simps [simp]:
  "files_without_schema schema_path = Inl (PyException ''No such file or directory'')"
  "files_without_schema seed_path = Inr ''insert into price_history values ();''"
  by (simp_all add: files_without_schema_def schema_path_def seed_path_def)

lemma happy_world_simps [simp]:
  "environ happy_world = env_ok"
  "read_text happy_world = files_ok"
  "service happy_world h count_query = Inr \<lparr>data = [], count = Some 19\<rparr>"
  by (simp_all add: happy_world_def)

lemma failing_world_simps [simp]:
  "environ failing_world = env_ok"
  "read_text failing_world = files_ok"
  "service failing_world h count_query = unavailable"
  by (simp_all add: failing_world_def)

lemma malformed_world_simps [simp]:
  "environ malformed_world = env_ok"
  "read_text malformed_world = files_ok"
  "service malformed_world h count_query = Inr \<lparr>data = [], count = Some 2\<rparr>"
  "service malformed_world h symbols_query =
     Inr \<lparr>data = [PyDict [(''symbol'', PyStr ''BTC'')], PyDict [(''name'', PyStr ''Ether'')]],
          count = None\<rparr>"
  by (simp_all add: malformed_world_def)

lemma world12_simps [simp]:
  "environ world12 = env_ok"
  "read_text world12 = files_ok"
  "service world12 h count_query = Inr \<lparr>data = [], count = Some 12\<rparr>"
  "service world12 h symbols_query =
     Inr \<lparr>data = rows_of [''BTC'', ''BTC'', ''ETH'', ''SOL''], count = None\<rparr>"
  by (simp_all add: world12_def)

lemma happy_world_symbols [simp]:
  "service happy_world h symbols_query =
     Inr \<lparr>data = rows_of [''BTC'', ''ETH'', ''SOL'', ''ADA'', ''MATIC''], count = None\<rparr>"
  by (simp add: happy_world_def)

lemma seed_fail_world_simps [simp]:
  "environ seed_fail_world = env_ok"
  "read_text seed_fail_world = files_ok"
  "service seed_fail_world [] (exec_sql a) = accepted"
  "service seed_fail_world (c # h) (exec_sql a) = unavailable"
  "service seed_fail_world h count_query = Inr \<lparr>data = [], count = Some 19\<rparr>"
  "service seed_fail_world h symbols_query =
     Inr \<lparr>data = rows_of [''BTC'', ''ETH'', ''SOL'', ''ADA'', ''MATIC''], count = None\<rparr>"
  by (simp_all add: seed_fail_world_def)

lemma failing_world_calls [simp]:
  "service failing_world h (exec_sql a) = unavailable"
  by (cases h) (simp_all add: failing_world_def)

lemma str_int_19: "str_int 19 = ''19''"
  by code_simp

lemma key_echo_world_simps [simp]:
  "environ key_echo_world = env_ok"
  "read_text key_echo_world = files_ok"
  "service key_echo_world [] (exec_sql a) =
     Inl (PyException ''Invalid API key: service-role-secret'')"
  by (simp_all add: key_echo_world_def)

lemma summary_lines_literal:
  "summary_lines =
     [nl @ replicate 80 (CHR ''=''),
      ''DATABASE SETUP COMPLETE!'',
      replicate 80 (CHR ''=''),
      nl @ ''Next steps:'',
      ''  1. Add exchange API credentials via the Trading page'',
      ''  2. Connect DeFi wallets via the Wallet Connect button'',
      ''  3. Start monitoring crypto prices in real-time'',
      ''  4. Create trading strategies and set price alerts'',
      nl @ replicate 80 (CHR ''='')]"
  unfolding summary_lines_def rule80_def by (rule refl)

lemma map_symbol_of_rows_of [simp]: "map symbol_of (rows_of syms) = map Some syms"
  by (simp add: rows_of_def)

lemma join_four: "join '', '' (sorted_list_of_set (set [''BTC'', ''BTC'', ''ETH'', ''SOL''])) = ''BTC, ETH, SOL''"
  by code_simp

lemma join_five:
  "join '', '' (sorted_list_of_set (set [''BTC'', ''ETH'', ''SOL'', ''ADA'', ''MATIC''])) =
     ''ADA, BTC, ETH, MATIC, SOL''"
  by code_simp

lemma format_count_12: "format_count (Some 12) = ''12''"
  by code_simp

lemma format_count_19: "format_count (Some 19) = ''19''"
  by code_simp

subsection \<open>The steps\<close>

lemma step1_trace:
  "step1 w schema_sql t =
     t @ map Print step1_banner @ [Execute (exec_sql schema_sql)] @
     map Print (case service w (calls t) (exec_sql schema_sql) of
                  Inl e \<Rightarrow> schema_error_lines e
                | Inr result \<Rightarrow> schema_ok_lines)"
  by (simp add: step1_def execute_def prints_def split: sum.split)

lemma step2_trace:
  "step2 w seed_sql t =
     t @ map Print step2_banner @ [Execute (exec_sql seed_sql)] @
     map Print (case service w (calls t) (exec_sql seed_sql) of
                  Inl e \<Rightarrow> seed_error_lines e
                | Inr result \<Rightarrow> seed_ok_lines)"
  by (simp add: step2_def execute_def prints_def split: sum.split)

lemma step3_count_raises:
  "service w (calls t) count_query = Inl e \<Longrightarrow>
   step3 w t = t @ map Print step3_banner @ [Execute count_query] @ map Print (verify_error_lines e)"
  by (simp add: step3_def execute_def prints_def)

lemma step3_symbols_raises:
  "service w (calls t) count_query = Inr result \<Longrightarrow>
   service w (calls t @ [count_query]) symbols_query = Inl e \<Longrightarrow>
   step3 w t = t @ map Print step3_banner @ [Execute count_query] @ map Print (count_lines result) @
     [Execute symbols_query] @ map Print (verify_error_lines e)"
  by (simp add: step3_def execute_def prints_def)

lemma step3_rows_raise:
  "service w (calls t) count_query = Inr result \<Longrightarrow>
   service w (calls t @ [count_query]) symbols_query = Inr symbols_result \<Longrightarrow>
   symbols_line w (data symbols_result) = Inl e \<Longrightarrow>
   step3 w t = t @ map Print step3_banner @ [Execute count_query] @ map Print (count_lines result) @
     [Execute symbols_query] @ map Print (verify_error_lines e)"
  by (simp add: step3_def execute_def prints_def)

lemma step3_ok:
  "service w (calls t) count_query = Inr result \<Longrightarrow>
   service w (calls t @ [count_query]) symbols_query = Inr symbols_result \<Longrightarrow>
   symbols_line w (data symbols_result) = Inr line \<Longrightarrow>
   step3 w t = t @ map Print step3_banner @ [Execute count_query] @ map Print (count_lines result) @
     [Execute symbols_query, Print line]"
  by (simp add: step3_def execute_def prints_def print_def)

lemma calls_step1 [simp]: "calls (step1 w a t) = calls t @ [exec_sql a]"
  by (simp add: step1_trace)

lemma calls_step2 [simp]: "calls (step2 w a t) = calls t @ [exec_sql a]"
  by (simp add: step2_trace)

lemma calls_step3:
  "calls (step3 w t) =
     calls t @ count_query #
       (case service w (calls t) count_query of Inl e \<Rightarrow> [] | Inr result \<Rightarrow> [symbols_query])"
  by (simp add: step3_def execute_def prints_def print_def Let_def split: sum.split)

lemma calls_loaded [simp]: "calls (loaded w) = []"
  by (simp add: loaded_def)

lemma printed_step3:
  "printed (step3 w t) =
     printed t @ step3_banner @
     (case service w (calls t) count_query of
        Inl e \<Rightarrow> verify_error_lines e
      | Inr result \<Rightarrow>
          count_lines result @
          (case service w (calls t @ [count_query]) symbols_query of
             Inl e \<Rightarrow> verify_error_lines e
           | Inr symbols_result \<Rightarrow>
               (case symbols_line w (data symbols_result) of
                  Inl e \<Rightarrow> verify_error_lines e
                | Inr line \<Rightarrow> [line])))"
  by (simp add: step3_def execute_def prints_def print_def Let_def split: sum.split)

lemma printed_loaded:
  "printed (loaded w) =
     title_lines @ [nl @ ''[v0] Reading SQL scripts...'', ''[v0] SQL scripts loaded successfully'']"
  by (simp add: loaded_def)

lemma run_loaded:
  assumes "\<not> falsy (environ w ''SUPABASE_URL'')"
      and "\<not> falsy (environ w ''SUPABASE_SERVICE_ROLE_KEY'')"
      and "read_text w schema_path = Inr a"
      and "read_text w seed_path = Inr b"
  shows "run w = (step3 w (step2 w b (step1 w a (loaded w))) @ map Print summary_lines, Exit 0)"
  using assms by (simp add: run_def load_scripts_def loaded_def prints_def print_def Let_def)

lemma run_calls:
  assumes "\<not> falsy (environ w ''SUPABASE_URL'')"
      and "\<not> falsy (environ w ''SUPABASE_SERVICE_ROLE_KEY'')"
      and "read_text w schema_path = Inr a"
      and "read_text w seed_path = Inr b"
  shows "calls (fst (run w)) =
           [exec_sql a, exec_sql b, count_query] @
           (case service w [exec_sql a, exec_sql b] count_query of
              Inl e \<Rightarrow> [] | Inr result \<Rightarrow> [symbols_query])"
  by (simp add: run_loaded [OF assms] calls_step3)

lemma calls_before_step3 [simp]:
  "calls (step2 w seed_sql (step1 w schema_sql (loaded w))) = [exec_sql schema_sql, exec_sql seed_sql]"
  by simp

lemma run_schema_unreadable:
  assumes "\<not> falsy (environ w ''SUPABASE_URL'')"
      and "\<not> falsy (environ w ''SUPABASE_SERVICE_ROLE_KEY'')"
      and "read_text w schema_path = Inl e"
  shows "run w =
           (CreateClient (environ w ''SUPABASE_URL'') (environ w ''SUPABASE_SERVICE_ROLE_KEY'') #
            map Print title_lines @
            [Print (nl @ ''[v0] Reading SQL scripts...''), ReadFile schema_path],
            Unhandled e)"
  using assms by (simp add: run_def load_scripts_def prints_def print_def Let_def)

lemma run_seed_unreadable:
  assumes "\<not> falsy (environ w ''SUPABASE_URL'')"
      and "\<not> falsy (environ w ''SUPABASE_SERVICE_ROLE_KEY'')"
      and "read_text w schema_path = Inr a"
      and "read_text w seed_path = Inl e"
  shows "run w =
           (CreateClient (environ w ''SUPABASE_URL'') (environ w ''SUPABASE_SERVICE_ROLE_KEY'') #
            map Print title_lines @
            [Print (nl @ ''[v0] Reading SQL scripts...''), ReadFile schema_path,
             ReadFile seed_path],
            Unhandled e)"
  using assms by (simp add: run_def load_scripts_def prints_def print_def Let_def)

lemma run_printed:
  assumes "\<not> falsy (environ w ''SUPABASE_URL'')"
      and "\<not> falsy (environ w ''SUPABASE_SERVICE_ROLE_KEY'')"
      and "read_text w schema_path = Inr a"
      and "read_text w seed_path = Inr b"
  shows "printed (fst (run w)) =
     title_lines @
     [nl @ ''[v0] Reading SQL scripts...'', ''[v0] SQL scripts loaded successfully''] @
     step1_banner @
     (case service w [] (exec_sql a) of
        Inl e \<Rightarrow> schema_error_lines e
      | Inr result \<Rightarrow> schema_ok_lines) @
     step2_banner @
     (case service w [exec_sql a] (exec_sql b) of
        Inl e \<Rightarrow> seed_error_lines e
      | Inr result \<Rightarrow> seed_ok_lines) @
     step3_banner @
     (case service w [exec_sql a, exec_sql b] count_query of
        Inl e \<Rightarrow> verify_error_lines e
      | Inr result \<Rightarrow>
          count_lines result @
          (case service w [exec_sql a, exec_sql b, count_query] symbols_query of
             Inl e \<Rightarrow> verify_error_lines e
           | Inr symbols_result \<Rightarrow>
               (case symbols_line w (data symbols_result) of
                  Inl e \<Rightarrow> verify_error_lines e
                | Inr line \<Rightarrow> [line]))) @
     summary_lines"
proof -
  have p1: "printed (step1 w a (loaded w)) =
              printed (loaded w) @ step1_banner @
              (case service w [] (exec_sql a) of
                 Inl e \<Rightarrow> schema_error_lines e
               | Inr result \<Rightarrow> schema_ok_lines)"
    by (simp add: step1_trace)
  have p2: "printed (step2 w b (step1 w a (loaded w))) =
              printed (step1 w a (loaded w)) @ step2_banner @
              (case service w [exec_sql a] (exec_sql b) of
                 Inl e \<Rightarrow> seed_error_lines e
               | Inr result \<Rightarrow> seed_ok_lines)"
    by (simp add: step2_trace [of w b "step1 w a (loaded w)"])
  show ?thesis
    by (simp add: run_loaded [OF assms] printed_step3 p2 p1 printed_loaded cong: sum.case_cong)
qed


subsection \<open>Rows\<close>

lemma symbol_values_ok:
  "map symbol_of rows = map Some syms \<Longrightarrow> symbol_values w rows = Inr (map PyStr syms)"
proof (induction rows arbitrary: syms)
  case Nil
  then show ?case by simp
next
  case (Cons row rows)
  then obtain s ss where syms: "syms = s # ss" and s: "symbol_of row = Some s"
    and ss: "map symbol_of rows = map Some ss"
    by (cases syms) auto
  from s have "subscript_symbol w row = Inr (PyStr s)"
    by (cases row) (auto split: option.splits pyval.splits)
  with Cons.IH [OF ss] show ?case by (simp add: syms)
qed

lemma strs_map_PyStr [simp]: "strs (map PyStr syms) = syms"
  by (induction syms) simp_all

lemma list_all_is_str_map [simp]: "list_all is_str (map PyStr syms)"
  by (induction syms) simp_all

lemma symbols_line_ok:
  "map symbol_of rows = map Some syms \<Longrightarrow>
   symbols_line w rows =
     Inr (check @ '' Available symbols: '' @ join '', '' (sorted_list_of_set (set syms)))"
  by (simp add: symbols_line_def symbol_values_ok join_sorted_def)

lemma symbol_values_malformed:
  "symbol_values w rows = Inr vs \<Longrightarrow> row \<in> set rows \<Longrightarrow> symbol_of row = None \<Longrightarrow>
   \<not> list_all is_str vs"
proof (induction rows arbitrary: vs)
  case Nil
  then show ?case by simp
next
  case (Cons r rows)
  from Cons.prems(1) obtain v vs' where v: "subscript_symbol w r = Inr v"
    and vs': "symbol_values w rows = Inr vs'" and vs: "vs = v # vs'"
    by (auto split: sum.splits if_splits)
  show ?case
  proof (cases "row = r")
    case True
    with v Cons.prems(3) have "\<not> is_str v"
      by (cases r) (auto split: option.splits pyval.splits)
    then show ?thesis by (simp add: vs)
  next
    case False
    with Cons.prems(2) have "row \<in> set rows" by simp
    from Cons.IH [OF vs' this Cons.prems(3)] show ?thesis by (simp add: vs)
  qed
qed

lemma symbols_line_malformed:
  assumes "row \<in> set rows" and "symbol_of row = None"
  shows "\<exists>e. symbols_line w rows = Inl e"
proof (cases "symbol_values w rows")
  case (Inl e)
  then show ?thesis by (simp add: symbols_line_def)
next
  case (Inr vs)
  from symbol_values_malformed [OF Inr assms] show ?thesis
    by (simp add: symbols_line_def Inr join_sorted_def)
qed

lemma sorted_symbols:
  "sorted (sorted_list_of_set (set syms)) \<and> distinct (sorted_list_of_set (set syms)) \<and>
   set (sorted_list_of_set (set syms)) = set (syms :: string list)"
  by simp

lemma run_verified:
  assumes "\<not> falsy (environ w ''SUPABASE_URL'')"
      and "\<not> falsy (environ w ''SUPABASE_SERVICE_ROLE_KEY'')"
      and "read_text w schema_path = Inr schema_sql"
      and "read_text w seed_path = Inr seed_sql"
      and "service w [exec_sql schema_sql, exec_sql seed_sql] count_query = Inr result"
      and "service w [exec_sql schema_sql, exec_sql seed_sql, count_query] symbols_query =
             Inr symbols_result"
      and "map symbol_of (data symbols_result) = map Some syms"
  shows "run w =
           (step2 w seed_sql (step1 w schema_sql (loaded w)) @
            map Print step3_banner @
            [Execute count_query,
             Print (nl @ check @ '' Database connection successful!''),
             Print (check @ '' Found '' @ format_count (count result) @ '' price history records''),
             Execute symbols_query,
             Print (check @ '' Available symbols: '' @
                    join '', '' (sorted_list_of_set (set syms)))] @
            map Print summary_lines, Exit 0)"
proof -
  have "step3 w (step2 w seed_sql (step1 w schema_sql (loaded w))) =
          step2 w seed_sql (step1 w schema_sql (loaded w)) @
          map Print step3_banner @ [Execute count_query] @ map Print (count_lines result) @
          [Execute symbols_query,
           Print (check @ '' Available symbols: '' @ join '', '' (sorted_list_of_set (set syms)))]"
    by (rule step3_ok [OF _ _ symbols_line_ok [OF assms(7)]])
       (simp_all only: calls_before_step3 assms(5,6) append.simps)
  then show ?thesis
    by (simp add: run_loaded [OF assms(1-4)] count_lines_def)
qed

subsection \<open>What the symbols line depends on\<close>

lemma subscript_symbol_cong:
  assumes "type_error_text w2 = type_error_text w1"
  shows "subscript_symbol w2 row = subscript_symbol w1 row"
  using assms by (cases row) simp_all

lemma symbol_values_cong:
  assumes "type_error_text w2 = type_error_text w1"
  shows "symbol_values w2 rows = symbol_values w1 rows"
proof (induction rows)
  case Nil
  show ?case by simp
next
  case (Cons row rows)
  show ?case
    by (simp add: subscript_symbol_cong [OF assms, of row] Cons.IH assms cong: sum.case_cong if_cong)
qed

lemma symbols_line_cong:
  assumes "type_error_text w2 = type_error_text w1"
  shows "symbols_line w2 rows = symbols_line w1 rows"
  by (simp add: symbols_line_def symbol_values_cong [OF assms] join_sorted_def assms
        cong: sum.case_cong if_cong)

subsection \<open>The credential check\<close>

text \<open>
  C1. In every environment in which one of the two required variables is absent or
  empty, the runner prints the two lines of the credential error, the second of which
  names the required variables, and exits with status 1. Its trace holds nothing else:
  no client was constructed and no remote call was made.
\<close>

theorem missing_credentials_exit:
  assumes "v = ''SUPABASE_URL'' \<or> v = ''SUPABASE_SERVICE_ROLE_KEY''"
      and "environ w v = None \<or> environ w v = Some []"
  shows "run w = (map Print missing_credentials_lines, Exit 1) \<and>
         ''Required environment variables: SUPABASE_URL, SUPABASE_SERVICE_ROLE_KEY''
           \<in> set (printed (fst (run w))) \<and>
         exit_status (snd (run w)) \<noteq> 0 \<and>
         \<not> list_ex is_create_client (fst (run w)) \<and>
         calls (fst (run w)) = []"
proof -
  have "falsy (environ w ''SUPABASE_URL'') \<or> falsy (environ w ''SUPABASE_SERVICE_ROLE_KEY'')"
    using assms by auto
  then have r: "run w = (map Print missing_credentials_lines, Exit 1)"
    by (simp add: run_def prints_def Let_def)
  show ?thesis
    unfolding r by (simp add: missing_credentials_lines_def)
qed

theorem missing_credentials_exit_witness:
  "run (scripted (env_ok(''SUPABASE_SERVICE_ROLE_KEY'' := None)) files_ok
          accepted accepted accepted accepted) =
     (map Print missing_credentials_lines, Exit 1) \<and>
   run (scripted (env_ok(''SUPABASE_URL'' \<mapsto> [])) files_ok
          accepted accepted accepted accepted) =
     (map Print missing_credentials_lines, Exit 1)"
  using missing_credentials_exit
          [of "''SUPABASE_SERVICE_ROLE_KEY''"
              "scripted (env_ok(''SUPABASE_SERVICE_ROLE_KEY'' := None)) files_ok
                 accepted accepted accepted accepted"]
        missing_credentials_exit
          [of "''SUPABASE_URL''"
              "scripted (env_ok(''SUPABASE_URL'' \<mapsto> [])) files_ok
                 accepted accepted accepted accepted"]
  by simp

subsection \<open>The remote calls\<close>

text \<open>
  C2, as stated, fails. With both variables set, both files readable and a service that
  accepts every call, the runner makes four remote calls, not three: the verification
  step queries the table twice.
\<close>

theorem four_calls_counterexample:
  "\<not> falsy (environ happy_world ''SUPABASE_URL'') \<and>
   \<not> falsy (environ happy_world ''SUPABASE_SERVICE_ROLE_KEY'') \<and>
   read_text happy_world schema_path = Inr ''create table price_history ();'' \<and>
   read_text happy_world seed_path = Inr ''insert into price_history values ();'' \<and>
   calls (fst (run happy_world)) =
     [exec_sql ''create table price_history ();'',
      exec_sql ''insert into price_history values ();'',
      count_query, symbols_query] \<and>
   length (calls (fst (run happy_world))) \<noteq> 3"
proof -
  have "calls (fst (run happy_world)) =
     [exec_sql ''create table price_history ();'',
      exec_sql ''insert into price_history values ();'',
      count_query, symbols_query]"
    by (subst run_calls [of happy_world "''create table price_history ();''"
          "''insert into price_history values ();''"]) simp_all
  then show ?thesis by simp
qed

text \<open>
  C2, amended. With both variables set to non-empty values and both files readable, the
  runner calls \<open>exec_sql\<close> on the schema, \<open>exec_sql\<close> on the seed script and the count
  query, in this order and whatever each call returns or raises; when the count query
  returns, and only then, the symbols query follows as a fourth call.
\<close>

theorem remote_calls_in_order:
  assumes "\<not> falsy (environ w ''SUPABASE_URL'')"
      and "\<not> falsy (environ w ''SUPABASE_SERVICE_ROLE_KEY'')"
      and "read_text w schema_path = Inr schema_sql"
      and "read_text w seed_path = Inr seed_sql"
  shows "calls (fst (run w)) =
           [exec_sql schema_sql, exec_sql seed_sql, count_query] @
           (case service w [exec_sql schema_sql, exec_sql seed_sql] count_query of
              Inl e \<Rightarrow> []
            | Inr result \<Rightarrow> [symbols_query])"
  using assms by (rule run_calls)

theorem remote_calls_in_order_witness:
  "calls (fst (run failing_world)) =
     [exec_sql ''create table price_history ();'',
      exec_sql ''insert into price_history values ();'',
      count_query]"
  using remote_calls_in_order [of failing_world "''create table price_history ();''"
          "''insert into price_history values ();''"]
  by (simp add: unavailable_def)

subsection \<open>Completion\<close>




subsection \<open>Unreadable scripts\<close>

lemma step1_not_in_title:
  "''STEP 1: Creating Enhanced Database Schema''
     \<notin> set (title_lines @ [nl @ ''[v0] Reading SQL scripts...''])"
  by code_simp

text \<open>
  C5. In a run that has passed the credential check, if the schema script or the seed
  script cannot be read, the error of the first failing read is not handled and ends the
  process. No remote call has been made, and the output stops at the line that announces
  the reading: the banner of step 1 is not printed.
\<close>

theorem file_error_unhandled:
  assumes "\<not> falsy (environ w ''SUPABASE_URL'')"
      and "\<not> falsy (environ w ''SUPABASE_SERVICE_ROLE_KEY'')"
      and "read_text w schema_path = Inl e1 \<or> read_text w seed_path = Inl e2"
  shows "(\<exists>e. snd (run w) = Unhandled e \<and>
              (read_text w schema_path = Inl e \<or> read_text w seed_path = Inl e)) \<and>
         calls (fst (run w)) = [] \<and>
         printed (fst (run w)) = title_lines @ [nl @ ''[v0] Reading SQL scripts...''] \<and>
         ''STEP 1: Creating Enhanced Database Schema'' \<notin> set (printed (fst (run w)))"
proof (cases "read_text w schema_path")
  case (Inl e)
  show ?thesis
    by (simp add: run_schema_unreadable [OF assms(1,2) Inl] Inl step1_not_in_title
          del: set_append)
next
  case (Inr a)
  with assms(3) have seed: "read_text w seed_path = Inl e2" by simp
  show ?thesis
    by (simp add: run_seed_unreadable [OF assms(1,2) Inr seed] seed step1_not_in_title
          del: set_append)
qed

theorem file_error_unhandled_witness:
  "snd (run (scripted env_ok files_without_schema accepted accepted accepted accepted)) =
     Unhandled (PyException ''No such file or directory'') \<and>
   calls (fst (run (scripted env_ok files_without_schema accepted accepted accepted accepted))) = [] \<and>
   printed (fst (run (scripted env_ok files_without_schema accepted accepted accepted accepted))) =
     title_lines @ [nl @ ''[v0] Reading SQL scripts...'']"
  using file_error_unhandled
          [of "scripted env_ok files_without_schema accepted accepted accepted accepted"
              "PyException ''No such file or directory''"]
  by simp

subsection \<open>Credentials and the output\<close>

lemma key_in_line:
  "sublist ''service-role-secret''
     (nl @ cross @ '' Error creating schema: Invalid API key: service-role-secret'')"
  by code_simp

text \<open>
  C7, as stated, fails in its second half. The handlers print the message of whatever a
  remote call raises; when the error of the client quotes the key, the key is printed.
\<close>

theorem credential_printed_counterexample:
  "environ key_echo_world ''SUPABASE_SERVICE_ROLE_KEY'' = Some ''service-role-secret'' \<and>
   \<not> falsy (environ key_echo_world ''SUPABASE_URL'') \<and>
   nl @ cross @ '' Error creating schema: Invalid API key: service-role-secret''
     \<in> set (printed (fst (run key_echo_world))) \<and>
   sublist ''service-role-secret''
     (nl @ cross @ '' Error creating schema: Invalid API key: service-role-secret'')"
proof -
  have "printed (fst (run key_echo_world)) =
          title_lines @
          [nl @ ''[v0] Reading SQL scripts...'', ''[v0] SQL scripts loaded successfully''] @
          step1_banner @
          schema_error_lines (PyException ''Invalid API key: service-role-secret'') @
          step2_banner @
          (case service key_echo_world [exec_sql ''create table price_history ();'']
                  (exec_sql ''insert into price_history values ();'') of
             Inl e \<Rightarrow> seed_error_lines e
           | Inr result \<Rightarrow> seed_ok_lines) @
          step3_banner @
          (case service key_echo_world
                  [exec_sql ''create table price_history ();'',
                   exec_sql ''insert into price_history values ();''] count_query of
             Inl e \<Rightarrow> verify_error_lines e
           | Inr result \<Rightarrow>
               count_lines result @
               (case service key_echo_world
                       [exec_sql ''create table price_history ();'',
                        exec_sql ''insert into price_history values ();'', count_query]
                       symbols_query of
                  Inl e \<Rightarrow> verify_error_lines e
                | Inr symbols_result \<Rightarrow>
                    (case symbols_line key_echo_world (data symbols_result) of
                       Inl e \<Rightarrow> verify_error_lines e
                     | Inr line \<Rightarrow> [line]))) @
          summary_lines"
    by (subst run_printed [of key_echo_world "''create table price_history ();''"
          "''insert into price_history values ();''"]) simp_all
  then have "nl @ cross @ '' Error creating schema: Invalid API key: service-role-secret''
     \<in> set (printed (fst (run key_echo_world)))"
    by (simp add: schema_error_lines_def)
  with key_in_line show ?thesis by simp
qed

text \<open>
  C7, amended. Take two runs with non-empty credentials and the same files, where the
  service answers the second run, on every call the first run makes, as it answers the
  first. They print the same lines, make the same calls and end alike, whatever the two
  pairs of credentials are. The output of a run that has loaded both scripts consists of
  the fixed lines of the script and of the lines built from what the four call sites
  return or raise; the environment does not occur in it, so a credential is printed only
  where one of those holds it.
\<close>

theorem credentials_not_in_output:
  assumes "\<not> falsy (environ w1 ''SUPABASE_URL'')"
      and "\<not> falsy (environ w1 ''SUPABASE_SERVICE_ROLE_KEY'')"
      and "\<not> falsy (environ w2 ''SUPABASE_URL'')"
      and "\<not> falsy (environ w2 ''SUPABASE_SERVICE_ROLE_KEY'')"
      and "read_text w2 = read_text w1"
      and "type_error_text w2 = type_error_text w1"
      and "\<forall>h c. prefix (h @ [c]) (calls (fst (run w1))) \<longrightarrow> service w2 h c = service w1 h c"
  shows "printed (fst (run w2)) = printed (fst (run w1)) \<and>
         snd (run w2) = snd (run w1) \<and>
         calls (fst (run w2)) = calls (fst (run w1)) \<and>
         (read_text w1 schema_path = Inr a \<and> read_text w1 seed_path = Inr b \<longrightarrow>
            printed (fst (run w1)) =
              title_lines @
              [nl @ ''[v0] Reading SQL scripts...'', ''[v0] SQL scripts loaded successfully''] @
              step1_banner @
              (case service w1 [] (exec_sql a) of
                 Inl e \<Rightarrow> schema_error_lines e
               | Inr result \<Rightarrow> schema_ok_lines) @
              step2_banner @
              (case service w1 [exec_sql a] (exec_sql b) of
                 Inl e \<Rightarrow> seed_error_lines e
               | Inr result \<Rightarrow> seed_ok_lines) @
              step3_banner @
              (case service w1 [exec_sql a, exec_sql b] count_query of
                 Inl e \<Rightarrow> verify_error_lines e
               | Inr result \<Rightarrow>
                   count_lines result @
                   (case service w1 [exec_sql a, exec_sql b, count_query] symbols_query of
                      Inl e \<Rightarrow> verify_error_lines e
                    | Inr symbols_result \<Rightarrow>
                        (case symbols_line w1 (data symbols_result) of
                           Inl e \<Rightarrow> verify_error_lines e
                         | Inr line \<Rightarrow> [line]))) @
              summary_lines)"
proof -
  have master: "read_text w1 schema_path = Inr a \<and> read_text w1 seed_path = Inr b \<longrightarrow>
            printed (fst (run w1)) =
              title_lines @
              [nl @ ''[v0] Reading SQL scripts...'', ''[v0] SQL scripts loaded successfully''] @
              step1_banner @
              (case service w1 [] (exec_sql a) of
                 Inl e \<Rightarrow> schema_error_lines e
               | Inr result \<Rightarrow> schema_ok_lines) @
              step2_banner @
              (case service w1 [exec_sql a] (exec_sql b) of
                 Inl e \<Rightarrow> seed_error_lines e
               | Inr result \<Rightarrow> seed_ok_lines) @
              step3_banner @
              (case service w1 [exec_sql a, exec_sql b] count_query of
                 Inl e \<Rightarrow> verify_error_lines e
               | Inr result \<Rightarrow>
                   count_lines result @
                   (case service w1 [exec_sql a, exec_sql b, count_query] symbols_query of
                      Inl e \<Rightarrow> verify_error_lines e
                    | Inr symbols_result \<Rightarrow>
                        (case symbols_line w1 (data symbols_result) of
                           Inl e \<Rightarrow> verify_error_lines e
                         | Inr line \<Rightarrow> [line]))) @
              summary_lines"
    using run_printed [OF assms(1,2)] by blast
  have same: "printed (fst (run w2)) = printed (fst (run w1)) \<and>
         snd (run w2) = snd (run w1) \<and>
         calls (fst (run w2)) = calls (fst (run w1))"
  proof (cases "read_text w1 schema_path")
    case (Inl e)
    then have "read_text w2 schema_path = Inl e" by (simp add: assms(5))
    from run_schema_unreadable [OF assms(1,2) Inl] run_schema_unreadable [OF assms(3,4) this]
    show ?thesis by simp
  next
    case x: (Inr x)
    then have x2: "read_text w2 schema_path = Inr x" by (simp add: assms(5))
    show ?thesis
    proof (cases "read_text w1 seed_path")
      case (Inl e)
      then have "read_text w2 seed_path = Inl e" by (simp add: assms(5))
      from run_seed_unreadable [OF assms(1,2) x Inl] run_seed_unreadable [OF assms(3,4) x2 this]
      show ?thesis by simp
    next
      case y: (Inr y)
      then have y2: "read_text w2 seed_path = Inr y" by (simp add: assms(5))
      note c1 = run_calls [OF assms(1,2) x y]
      have pre: "prefix (h @ [c]) (calls (fst (run w1))) \<Longrightarrow> service w2 h c = service w1 h c"
        for h c
        using assms(7) by blast
      have r1: "service w2 [] (exec_sql x) = service w1 [] (exec_sql x)"
        by (rule pre) (simp add: c1)
      have r2: "service w2 [exec_sql x] (exec_sql y) = service w1 [exec_sql x] (exec_sql y)"
        by (rule pre) (simp add: c1)
      have r3: "service w2 [exec_sql x, exec_sql y] count_query =
                service w1 [exec_sql x, exec_sql y] count_query"
        by (rule pre) (simp add: c1)
      have s: "symbols_line w2 rows = symbols_line w1 rows" for rows
        by (rule symbols_line_cong [OF assms(6)])
      have e: "snd (run w2) = snd (run w1)"
        by (simp add: run_loaded [OF assms(1,2) x y] run_loaded [OF assms(3,4) x2 y2])
      show ?thesis
      proof (cases "service w1 [exec_sql x, exec_sql y] count_query")
        case (Inl err)
        then have "printed (fst (run w2)) = printed (fst (run w1))"
          and "calls (fst (run w2)) = calls (fst (run w1))"
          by (simp_all add: run_printed [OF assms(1,2) x y] run_printed [OF assms(3,4) x2 y2]
                run_calls [OF assms(1,2) x y] run_calls [OF assms(3,4) x2 y2] r1 r2 r3)
        with e show ?thesis by simp
      next
        case (Inr result)
        have r4: "service w2 [exec_sql x, exec_sql y, count_query] symbols_query =
                  service w1 [exec_sql x, exec_sql y, count_query] symbols_query"
          by (rule pre) (simp add: c1 Inr)
        from Inr have "printed (fst (run w2)) = printed (fst (run w1))"
          and "calls (fst (run w2)) = calls (fst (run w1))"
          by (simp_all add: run_printed [OF assms(1,2) x y] run_printed [OF assms(3,4) x2 y2]
                run_calls [OF assms(1,2) x y] run_calls [OF assms(3,4) x2 y2] r1 r2 r3 r4 s
                cong: sum.case_cong)
        with e show ?thesis by simp
      qed
    qed
  qed
  from same master show ?thesis by blast
qed

theorem credentials_not_in_output_witness:
  "environ happy_world ''SUPABASE_SERVICE_ROLE_KEY'' = Some ''service-role-secret'' \<and>
   environ (happy_world\<lparr>environ := env_other\<rparr>) ''SUPABASE_SERVICE_ROLE_KEY'' =
     Some ''another-key'' \<and>
   printed (fst (run (happy_world\<lparr>environ := env_other\<rparr>))) = printed (fst (run happy_world)) \<and>
   snd (run (happy_world\<lparr>environ := env_other\<rparr>)) = snd (run happy_world) \<and>
   calls (fst (run (happy_world\<lparr>environ := env_other\<rparr>))) = calls (fst (run happy_world))"
  using credentials_not_in_output [of happy_world "happy_world\<lparr>environ := env_other\<rparr>"]
  by simp

subsection \<open>The verification step\<close>

text \<open>
  C8. If the count query raises, the verification step consists of that call and the two
  lines of its handler, the first of which carries the exception's message: no count line
  and no symbols line is printed, and the symbols query is not among the calls of the run.
\<close>

theorem count_query_failure:
  assumes "\<not> falsy (environ w ''SUPABASE_URL'')"
      and "\<not> falsy (environ w ''SUPABASE_SERVICE_ROLE_KEY'')"
      and "read_text w schema_path = Inr schema_sql"
      and "read_text w seed_path = Inr seed_sql"
      and "service w [exec_sql schema_sql, exec_sql seed_sql] count_query = Inl e"
  shows "run w =
           (step2 w seed_sql (step1 w schema_sql (loaded w)) @
            map Print step3_banner @
            [Execute count_query] @
            map Print (verify_error_lines e) @
            map Print summary_lines, Exit 0) \<and>
         calls (fst (run w)) = [exec_sql schema_sql, exec_sql seed_sql, count_query] \<and>
         symbols_query \<notin> set (calls (fst (run w)))"
proof -
  have c: "calls (step2 w seed_sql (step1 w schema_sql (loaded w))) =
             [exec_sql schema_sql, exec_sql seed_sql]"
    by simp
  have r: "run w =
           (step2 w seed_sql (step1 w schema_sql (loaded w)) @
            map Print step3_banner @
            [Execute count_query] @
            map Print (verify_error_lines e) @
            map Print summary_lines, Exit 0)"
    using assms(5) by (simp add: run_loaded [OF assms(1-4)] step3_count_raises c)
  have "calls (fst (run w)) = [exec_sql schema_sql, exec_sql seed_sql, count_query]"
    by (simp add: run_calls [OF assms(1-4)] assms(5))
  moreover have "symbols_query \<notin> set [exec_sql schema_sql, exec_sql seed_sql, count_query]"
    by (simp add: symbols_query_def exec_sql_def count_query_def)
  ultimately show ?thesis using r by simp
qed

theorem count_query_failure_witness:
  "calls (fst (run failing_world)) =
     [exec_sql ''create table price_history ();'',
      exec_sql ''insert into price_history values ();'', count_query] \<and>
   suffix (map Print step3_banner @
           [Execute count_query,
            Print (nl @ cross @ '' Verification failed: connection refused''),
            Print (nl @ ''Please ensure the SQL scripts have been executed in Supabase.'')] @
           map Print summary_lines)
     (fst (run failing_world))"
  using count_query_failure [of failing_world "''create table price_history ();''"
          "''insert into price_history values ();''" "PyException ''connection refused''"]
  by (simp add: unavailable_def verify_error_lines_def suffix_def)

text \<open>
  C9. If both verification queries return and some returned row is malformed (it is not a
  dictionary, it has no \<^verbatim>\<open>'symbol'\<close> entry, or the entry is not a string), building
  the symbols line raises, and the handler of the verification step catches the error:
  the last eleven lines of the run are the ``Verification failed'' line with the
  message, the request to make sure the scripts were executed, and the nine lines of the
  summary banner; the run exits with status 0.
\<close>

theorem malformed_rows_caught:
  assumes "\<not> falsy (environ w ''SUPABASE_URL'')"
      and "\<not> falsy (environ w ''SUPABASE_SERVICE_ROLE_KEY'')"
      and "read_text w schema_path = Inr schema_sql"
      and "read_text w seed_path = Inr seed_sql"
      and "service w [exec_sql schema_sql, exec_sql seed_sql] count_query = Inr result"
      and "service w [exec_sql schema_sql, exec_sql seed_sql, count_query] symbols_query =
             Inr symbols_result"
      and "row \<in> set (data symbols_result)"
      and "symbol_of row = None"
  shows "\<exists>e. symbols_line w (data symbols_result) = Inl e \<and>
             run w =
               (step2 w seed_sql (step1 w schema_sql (loaded w)) @
                map Print step3_banner @
                [Execute count_query] @
                map Print (count_lines result) @
                [Execute symbols_query] @
                map Print (verify_error_lines e) @
                map Print summary_lines, Exit 0) \<and>
             suffix
               (map Print
                  [nl @ cross @ '' Verification failed: '' @ str_exn e,
                   nl @ ''Please ensure the SQL scripts have been executed in Supabase.'',
                   nl @ replicate 80 (CHR ''=''),
                   ''DATABASE SETUP COMPLETE!'',
                   replicate 80 (CHR ''=''),
                   nl @ ''Next steps:'',
                   ''  1. Add exchange API credentials via the Trading page'',
                   ''  2. Connect DeFi wallets via the Wallet Connect button'',
                   ''  3. Start monitoring crypto prices in real-time'',
                   ''  4. Create trading strategies and set price alerts'',
                   nl @ replicate 80 (CHR ''='')])
               (fst (run w)) \<and>
             snd (run w) = Exit 0"
proof -
  from symbols_line_malformed [OF assms(7,8)]
  obtain e where e: "symbols_line w (data symbols_result) = Inl e" by blast
  have c: "calls (step2 w seed_sql (step1 w schema_sql (loaded w))) =
             [exec_sql schema_sql, exec_sql seed_sql]"
    by simp
  have "step3 w (step2 w seed_sql (step1 w schema_sql (loaded w))) =
          step2 w seed_sql (step1 w schema_sql (loaded w)) @
          map Print step3_banner @ [Execute count_query] @ map Print (count_lines result) @
          [Execute symbols_query] @ map Print (verify_error_lines e)"
    by (rule step3_rows_raise [OF _ _ e]) (simp_all only: c assms(5,6) append.simps)
  then have r: "run w =
               (step2 w seed_sql (step1 w schema_sql (loaded w)) @
                map Print step3_banner @
                [Execute count_query] @
                map Print (count_lines result) @
                [Execute symbols_query] @
                map Print (verify_error_lines e) @
                map Print summary_lines, Exit 0)"
    by (simp add: run_loaded [OF assms(1-4)])
  have "suffix (map Print (verify_error_lines e) @ map Print summary_lines) (fst (run w))"
    unfolding r fst_conv suffix_def
    by (rule exI [of _ "step2 w seed_sql (step1 w schema_sql (loaded w)) @
          map Print step3_banner @ [Execute count_query] @ map Print (count_lines result) @
          [Execute symbols_query]"]) simp
  then have "suffix
               (map Print
                  [nl @ cross @ '' Verification failed: '' @ str_exn e,
                   nl @ ''Please ensure the SQL scripts have been executed in Supabase.'',
                   nl @ replicate 80 (CHR ''=''),
                   ''DATABASE SETUP COMPLETE!'',
                   replicate 80 (CHR ''=''),
                   nl @ ''Next steps:'',
                   ''  1. Add exchange API credentials via the Trading page'',
                   ''  2. Connect DeFi wallets via the Wallet Connect button'',
                   ''  3. Start monitoring crypto prices in real-time'',
                   ''  4. Create trading strategies and set price alerts'',
                   nl @ replicate 80 (CHR ''='')])
               (fst (run w))"
    unfolding summary_lines_literal verify_error_lines_def by simp
  with e r show ?thesis by auto
qed

theorem malformed_rows_caught_witness:
  "snd (run malformed_world) = Exit 0 \<and>
   suffix
     (map Print
        [nl @ cross @ '' Verification failed: '' @ quote @ ''symbol'' @ quote,
         nl @ ''Please ensure the SQL scripts have been executed in Supabase.'',
         nl @ replicate 80 (CHR ''=''),
         ''DATABASE SETUP COMPLETE!'',
         replicate 80 (CHR ''=''),
         nl @ ''Next steps:'',
         ''  1. Add exchange API credentials via the Trading page'',
         ''  2. Connect DeFi wallets via the Wallet Connect button'',
         ''  3. Start monitoring crypto prices in real-time'',
         ''  4. Create trading strategies and set price alerts'',
         nl @ replicate 80 (CHR ''='')])
     (fst (run malformed_world))"
proof -
  have l: "symbols_line malformed_world
             [PyDict [(''symbol'', PyStr ''BTC'')], PyDict [(''name'', PyStr ''Ether'')]] =
           Inl SymbolKeyError"
    by (simp add: symbols_line_def)
  from malformed_rows_caught [of malformed_world "''create table price_history ();''"
          "''insert into price_history values ();''" "\<lparr>data = [], count = Some 2\<rparr>"
          "\<lparr>data = [PyDict [(''symbol'', PyStr ''BTC'')], PyDict [(''name'', PyStr ''Ether'')]],
            count = None\<rparr>"
          "PyDict [(''name'', PyStr ''Ether'')]"]
  obtain e where "symbols_line malformed_world
       (data \<lparr>data = [PyDict [(''symbol'', PyStr ''BTC'')], PyDict [(''name'', PyStr ''Ether'')]],
               count = None\<rparr>) = Inl e"
    and s: "suffix
          (map Print
            [nl @ cross @ '' Verification failed: '' @ str_exn e,
             nl @ ''Please ensure the SQL scripts have been executed in Supabase.'',
             nl @ replicate 80 (CHR ''=''),
             ''DATABASE SETUP COMPLETE!'',
             replicate 80 (CHR ''=''),
             nl @ ''Next steps:'',
             ''  1. Add exchange API credentials via the Trading page'',
             ''  2. Connect DeFi wallets via the Wallet Connect button'',
             ''  3. Start monitoring crypto prices in real-time'',
             ''  4. Create trading strategies and set price alerts'',
             nl @ replicate 80 (CHR ''='')])
          (fst (run malformed_world))"
    and x: "snd (run malformed_world) = Exit 0"
    by auto
  then have "e = SymbolKeyError" using l by simp
  with s x show ?thesis by simp
qed

text \<open>
  C4. When both verification queries return and every returned row is a dictionary with
  a string under \<^verbatim>\<open>'symbol'\<close>, the verification step prints the returned count in
  its ``Found'' line and, in its ``Available symbols'' line, the distinct symbols in
  ascending string order, joined by a comma and a space. For a count of 12 and the rows
  BTC, BTC, ETH, SOL these are 12 and ``BTC, ETH, SOL''; for a count of 19 and the rows
  BTC, ETH, SOL, ADA, MATIC they are 19 and ``ADA, BTC, ETH, MATIC, SOL''.
\<close>

theorem verification_report:
  assumes "\<not> falsy (environ w ''SUPABASE_URL'')"
      and "\<not> falsy (environ w ''SUPABASE_SERVICE_ROLE_KEY'')"
      and "read_text w schema_path = Inr schema_sql"
      and "read_text w seed_path = Inr seed_sql"
      and "service w [exec_sql schema_sql, exec_sql seed_sql] count_query = Inr result"
      and "service w [exec_sql schema_sql, exec_sql seed_sql, count_query] symbols_query =
             Inr symbols_result"
      and "map symbol_of (data symbols_result) = map Some syms"
  shows "run w =
           (step2 w seed_sql (step1 w schema_sql (loaded w)) @
            map Print step3_banner @
            [Execute count_query,
             Print (nl @ check @ '' Database connection successful!''),
             Print (check @ '' Found '' @ format_count (count result) @ '' price history records''),
             Execute symbols_query,
             Print (check @ '' Available symbols: '' @
                    join '', '' (sorted_list_of_set (set syms)))] @
            map Print summary_lines, Exit 0) \<and>
         sorted (sorted_list_of_set (set syms)) \<and>
         distinct (sorted_list_of_set (set syms)) \<and>
         set (sorted_list_of_set (set syms)) = set syms \<and>
         (count result = Some 12 \<and> syms = [''BTC'', ''BTC'', ''ETH'', ''SOL''] \<longrightarrow>
            format_count (count result) = ''12'' \<and>
            join '', '' (sorted_list_of_set (set syms)) = ''BTC, ETH, SOL'') \<and>
         (count result = Some 19 \<and> syms = [''BTC'', ''ETH'', ''SOL'', ''ADA'', ''MATIC''] \<longrightarrow>
            format_count (count result) = ''19'' \<and>
            join '', '' (sorted_list_of_set (set syms)) = ''ADA, BTC, ETH, MATIC, SOL'')"
proof -
  note r = run_verified [OF assms]
  have ex12: "count result = Some 12 \<and> syms = [''BTC'', ''BTC'', ''ETH'', ''SOL''] \<longrightarrow>
            format_count (count result) = ''12'' \<and>
            join '', '' (sorted_list_of_set (set syms)) = ''BTC, ETH, SOL''"
    using format_count_12 join_four by auto
  have ex19: "count result = Some 19 \<and> syms = [''BTC'', ''ETH'', ''SOL'', ''ADA'', ''MATIC''] \<longrightarrow>
            format_count (count result) = ''19'' \<and>
            join '', '' (sorted_list_of_set (set syms)) = ''ADA, BTC, ETH, MATIC, SOL''"
    using format_count_19 join_five by auto
  from r ex12 ex19 sorted_symbols [of syms] show ?thesis by blast
qed

theorem verification_report_witness:
  "suffix ([Print (check @ '' Found 12 price history records''),
            Execute symbols_query,
            Print (check @ '' Available symbols: BTC, ETH, SOL'')] @ map Print summary_lines)
     (fst (run world12)) \<and>
   suffix ([Print (check @ '' Found 19 price history records''),
            Execute symbols_query,
            Print (check @ '' Available symbols: ADA, BTC, ETH, MATIC, SOL'')] @
           map Print summary_lines)
     (fst (run happy_world))"
  using verification_report [of world12 "''create table price_history ();''"
          "''insert into price_history values ();''" "\<lparr>data = [], count = Some 12\<rparr>"
          "\<lparr>data = rows_of [''BTC'', ''BTC'', ''ETH'', ''SOL''], count = None\<rparr>"
          "[''BTC'', ''BTC'', ''ETH'', ''SOL'']"]
        verification_report [of happy_world "''create table price_history ();''"
          "''insert into price_history values ();''" "\<lparr>data = [], count = Some 19\<rparr>"
          "\<lparr>data = rows_of [''BTC'', ''ETH'', ''SOL'', ''ADA'', ''MATIC''], count = None\<rparr>"
          "[''BTC'', ''ETH'', ''SOL'', ''ADA'', ''MATIC'']"]
  by (simp add: suffix_def del: sorted_list_of_set.set_sorted_key_list_of_set)

text \<open>
  C10. For two verification steps whose queries return well-formed rows with the same
  set of symbols, in whatever order and with whatever repetitions, the ``Available
  symbols'' line, the last output of the step, is the same: it lists the elements of that
  set once each, in ascending order.
\<close>

theorem symbols_line_set_only:
  assumes "service w1 (calls t1) count_query = Inr result1"
      and "service w1 (calls t1 @ [count_query]) symbols_query = Inr symbols_result1"
      and "map symbol_of (data symbols_result1) = map Some syms1"
      and "service w2 (calls t2) count_query = Inr result2"
      and "service w2 (calls t2 @ [count_query]) symbols_query = Inr symbols_result2"
      and "map symbol_of (data symbols_result2) = map Some syms2"
      and "set syms1 = set syms2"
  shows "last (step3 w1 t1) = last (step3 w2 t2) \<and>
         last (step3 w1 t1) =
           Print (check @ '' Available symbols: '' @
                  join '', '' (sorted_list_of_set (set syms1))) \<and>
         sorted (sorted_list_of_set (set syms1)) \<and>
         distinct (sorted_list_of_set (set syms1)) \<and>
         set (sorted_list_of_set (set syms1)) = set syms1"
proof -
  have 1: "last (step3 w1 t1) =
             Print (check @ '' Available symbols: '' @ join '', '' (sorted_list_of_set (set syms1)))"
    by (simp add: step3_ok [OF assms(1,2) symbols_line_ok [OF assms(3)]])
  have 2: "last (step3 w2 t2) =
             Print (check @ '' Available symbols: '' @ join '', '' (sorted_list_of_set (set syms2)))"
    by (simp add: step3_ok [OF assms(4,5) symbols_line_ok [OF assms(6)]])
  from 1 2 assms(7) sorted_symbols [of syms1] show ?thesis by simp
qed

theorem symbols_line_set_only_witness:
  "last (step3 world12 []) = Print (check @ '' Available symbols: BTC, ETH, SOL'') \<and>
   last (step3 (scripted env_ok files_ok accepted accepted
                  (Inr \<lparr>data = [], count = Some 3\<rparr>)
                  (Inr \<lparr>data = rows_of [''SOL'', ''ETH'', ''BTC''], count = None\<rparr>)) []) =
     Print (check @ '' Available symbols: BTC, ETH, SOL'')"
proof -
  let ?w2 = "scripted env_ok files_ok accepted accepted
               (Inr \<lparr>data = [], count = Some 3\<rparr>)
               (Inr \<lparr>data = rows_of [''SOL'', ''ETH'', ''BTC''], count = None\<rparr>)"
  have s: "set [''BTC'', ''BTC'', ''ETH'', ''SOL''] = set [''SOL'', ''ETH'', ''BTC'']"
    by auto
  have h1: "service world12 (calls []) count_query = Inr \<lparr>data = [], count = Some 12\<rparr>"
    and h2: "service world12 (calls [] @ [count_query]) symbols_query =
               Inr \<lparr>data = rows_of [''BTC'', ''BTC'', ''ETH'', ''SOL''], count = None\<rparr>"
    and h3: "map symbol_of (data \<lparr>data = rows_of [''BTC'', ''BTC'', ''ETH'', ''SOL''],
               count = None\<rparr>) = map Some [''BTC'', ''BTC'', ''ETH'', ''SOL'']"
    and h4: "service ?w2 (calls []) count_query = Inr \<lparr>data = [], count = Some 3\<rparr>"
    and h5: "service ?w2 (calls [] @ [count_query]) symbols_query =
               Inr \<lparr>data = rows_of [''SOL'', ''ETH'', ''BTC''], count = None\<rparr>"
    and h6: "map symbol_of (data \<lparr>data = rows_of [''SOL'', ''ETH'', ''BTC''],
               count = None\<rparr>) = map Some [''SOL'', ''ETH'', ''BTC'']"
    by simp_all
  note T = symbols_line_set_only [OF h1 h2 h3 h4 h5 h6 s]
  have a: "last (step3 ?w2 []) = last (step3 world12 [])"
    by (rule sym) (rule conjunct1 [OF T])
  have b: "last (step3 world12 []) = Print (check @ '' Available symbols: BTC, ETH, SOL'')"
    using conjunct1 [OF conjunct2 [OF T]] unfolding join_four by simp
  from b trans [OF a b] show ?thesis by (rule conjI)
qed

subsection \<open>The handler of the seed step\<close>

lemma seed_fail_no_guidance:
  "nl @ ''Please run the following scripts manually in Supabase SQL Editor:'' \<notin>
     set (title_lines @
     [nl @ ''[v0] Reading SQL scripts...'', ''[v0] SQL scripts loaded successfully''] @
     step1_banner @ schema_ok_lines @
     step2_banner @ [nl @ cross @ '' Error seeding data: connection refused''] @
     step3_banner @
     [nl @ check @ '' Database connection successful!'',
      check @ '' Found 19 price history records'',
      check @ '' Available symbols: ADA, BTC, ETH, MATIC, SOL''] @
     summary_lines)"
  "nl @ ''Please ensure the SQL scripts have been executed in Supabase.'' \<notin>
     set (title_lines @
     [nl @ ''[v0] Reading SQL scripts...'', ''[v0] SQL scripts loaded successfully''] @
     step1_banner @ schema_ok_lines @
     step2_banner @ [nl @ cross @ '' Error seeding data: connection refused''] @
     step3_banner @
     [nl @ check @ '' Database connection successful!'',
      check @ '' Found 19 price history records'',
      check @ '' Available symbols: ADA, BTC, ETH, MATIC, SOL''] @
     summary_lines)"
  by code_simp+

text \<open>
  C6. The run in which the seed call raises and every other call returns: the error is
  caught, step 3 and the summary follow and the run exits with status 0, but the handler
  of step 2 prints the message and nothing more. Neither the instruction to run the
  scripts by hand, which the schema handler prints, nor the request to make sure they were
  executed, which the verification handler prints, is among the output.
\<close>

theorem seed_failure_prints_no_guidance:
  "service seed_fail_world [exec_sql ''create table price_history ();'']
     (exec_sql ''insert into price_history values ();'') =
     Inl (PyException ''connection refused'') \<and>
   snd (run seed_fail_world) = Exit 0 \<and>
   printed (fst (run seed_fail_world)) =
     title_lines @
     [nl @ ''[v0] Reading SQL scripts...'', ''[v0] SQL scripts loaded successfully''] @
     step1_banner @ schema_ok_lines @
     step2_banner @ [nl @ cross @ '' Error seeding data: connection refused''] @
     step3_banner @
     [nl @ check @ '' Database connection successful!'',
      check @ '' Found 19 price history records'',
      check @ '' Available symbols: ADA, BTC, ETH, MATIC, SOL''] @
     summary_lines \<and>
   nl @ ''Please run the following scripts manually in Supabase SQL Editor:''
     \<notin> set (printed (fst (run seed_fail_world))) \<and>
   nl @ ''Please ensure the SQL scripts have been executed in Supabase.''
     \<notin> set (printed (fst (run seed_fail_world)))"
proof -
  have r: "run seed_fail_world =
          (step2 seed_fail_world ''insert into price_history values ();''
             (step1 seed_fail_world ''create table price_history ();'' (loaded seed_fail_world)) @
            map Print step3_banner @
            [Execute count_query,
             Print (nl @ check @ '' Database connection successful!''),
             Print (check @ '' Found '' @ format_count (count \<lparr>data = [], count = Some 19\<rparr>) @
                    '' price history records''),
             Execute symbols_query,
             Print (check @ '' Available symbols: '' @
                    join '', '' (sorted_list_of_set
                      (set [''BTC'', ''ETH'', ''SOL'', ''ADA'', ''MATIC''])))] @
            map Print summary_lines, Exit 0)"
    by (rule run_verified
          [of seed_fail_world _ _ "\<lparr>data = [], count = Some 19\<rparr>"
              "\<lparr>data = rows_of [''BTC'', ''ETH'', ''SOL'', ''ADA'', ''MATIC''], count = None\<rparr>"
              "[''BTC'', ''ETH'', ''SOL'', ''ADA'', ''MATIC'']"])
       simp_all
  have p: "printed (fst (run seed_fail_world)) =
     title_lines @
     [nl @ ''[v0] Reading SQL scripts...'', ''[v0] SQL scripts loaded successfully''] @
     step1_banner @ schema_ok_lines @
     step2_banner @ [nl @ cross @ '' Error seeding data: connection refused''] @
     step3_banner @
     [nl @ check @ '' Database connection successful!'',
      check @ '' Found 19 price history records'',
      check @ '' Available symbols: ADA, BTC, ETH, MATIC, SOL''] @
     summary_lines"
    using r
    by (simp add: step1_trace step2_trace loaded_def accepted_def unavailable_def
          seed_error_lines_def str_int_19 join_five
          del: sorted_list_of_set.set_sorted_key_list_of_set)
  have s: "service seed_fail_world [exec_sql ''create table price_history ();'']
     (exec_sql ''insert into price_history values ();'') =
     Inl (PyException ''connection refused'')"
    by (simp add: unavailable_def)
  have x: "snd (run seed_fail_world) = Exit 0"
    by (simp add: r)
  from seed_fail_no_guidance have
    "nl @ ''Please run the following scripts manually in Supabase SQL Editor:''
       \<notin> set (printed (fst (run seed_fail_world)))"
    "nl @ ''Please ensure the SQL scripts have been executed in Supabase.''
       \<notin> set (printed (fst (run seed_fail_world)))"
    unfolding p by blast+
  with s x p show ?thesis by blast
qed

end
